theory Spec2Isabelle
  imports Complex_Main
begin

section \<open>Conventions of the embedding\<close>

text \<open>
  The program is a linear pipeline over Python lists and tuples. Python strings are
  modelled as \<^typ>\<open>string\<close> (the UTF-8 bytes of the text) and Python's unbounded
  \<open>int\<close> as \<^typ>\<open>int\<close>. A \<open>float\<close> (scores, match counts, percentages)
  stands here as the \<^typ>\<open>real\<close> it denotes. That is enough for what is stated
  below about floats: the comparison of a score with the threshold, and whether the
  Scorer divides and faults. The rounding of IEEE doubles, their overflow to infinity
  and NaN are not modelled, so nothing is stated about rounded sums: the totals of the
  Normalizer/Aggregator (\<open>lemmatize_and_sum\<close>) and the sum of the Scorer's
  percentages depend on them and are outside this embedding. An exception that the
  source lets escape is a value \<open>Inl e\<close> of the result type \<open>py_error + 'a\<close>.
\<close>

datatype py_error =
    ZeroDivisionError
  | KeyError string
  | TypeError
  | RequestException string
  | OtherException string

section \<open>Python primitives the program uses\<close>

text \<open>\<open>sep.join(xs)\<close>: the strings of \<open>xs\<close> with \<open>sep\<close> between neighbours.\<close>

fun join :: "string \<Rightarrow> string list \<Rightarrow> string" where
  "join sep [] = []"
| "join sep [x] = x"
| "join sep (x # y # ys) = x @ sep @ join sep (y # ys)"

text \<open>\<open>n * s\<close> for an int \<open>n\<close> and a string \<open>s\<close>: empty when \<open>n\<close> is not positive.\<close>

definition str_mul :: "int \<Rightarrow> string \<Rightarrow> string" where
  "str_mul n s = concat (replicate (nat n) s)"

text \<open>
  The slice \<open>xs[start:stop]\<close> with step 1. A negative index counts from the end, and
  every index is clamped into \<open>0..len(xs)\<close>; an absent \<open>stop\<close> is \<open>len(xs)\<close>.
  A slice never raises.
\<close>

definition slice_index :: "nat \<Rightarrow> int \<Rightarrow> nat" where
  "slice_index len i = (if i < 0 then nat (max (i + int len) 0) else min (nat i) len)"

definition py_slice :: "'a list \<Rightarrow> int \<Rightarrow> int option \<Rightarrow> 'a list" where
  "py_slice xs start stop =
     (let lo = slice_index (length xs) start;
          hi = (case stop of None \<Rightarrow> length xs | Some j \<Rightarrow> slice_index (length xs) j)
      in take (hi - lo) (drop lo xs))"

text \<open>
  \<open>urllib.parse.quote(s)\<close> with its default \<open>safe = '/'\<close>: every byte of the
  UTF-8 encoding that is not an ASCII letter, a digit, one of \<open>_.-~\<close> or \<open>/\<close>
  becomes \<open>%XX\<close>, with two upper-case hexadecimal digits.
\<close>

definition always_safe :: string where
  "always_safe =
     ''ABCDEFGHIJKLMNOPQRSTUVWXYZabcdefghijklmnopqrstuvwxyz0123456789_.-~''"

definition hex_digit :: "nat \<Rightarrow> char" where
  "hex_digit n = ''0123456789ABCDEF'' ! n"

definition quote_byte :: "string \<Rightarrow> char \<Rightarrow> string" where
  "quote_byte safe c =
     (if c \<in> set (always_safe @ safe) then [c]
      else [CHR ''%'', hex_digit (of_char c div 16), hex_digit (of_char c mod 16)])"

definition quote :: "string \<Rightarrow> string" where
  "quote s = concat (map (quote_byte ''/'') s)"

section \<open>Data model\<close>

text \<open>
  A phrase record of the remote API: \<open>{"tks": [{"tt": text, ...}, ...], "sc": score,
  "mc": count}\<close>. A token may carry further fields, which the program never reads.
  The keys the program reads are taken to be present, with a string for \<open>tt\<close> and
  numbers for \<open>sc\<close> and \<open>mc\<close>, as the API delivers them.
\<close>

record token =
  tt :: string

record phrase =
  tks :: "token list"
  sc :: real
  mc :: real



section \<open>Query Builder and Remote Lookup: \<open>get_response_list\<close>\<close>

definition bracket_words :: "int \<Rightarrow> string" where
  "bracket_words num_words = join '' '' [str_mul num_words ''?'']"

definition encoded_query :: "string \<Rightarrow> string \<Rightarrow> int \<Rightarrow> string" where
  "encoded_query word position num_words =
     (if position = ''before''
      then quote (bracket_words num_words @ '' '' @ word)
      else quote (word @ '' '' @ bracket_words num_words))"

definition query_params :: "string \<Rightarrow> string \<Rightarrow> int \<Rightarrow> string" where
  "query_params word position num_words =
     (let params = [(''corpus'', ''eng-gb''), (''query'', encoded_query word position num_words)]
      in join ''&'' (map (\<lambda>(name, val). name @ ''='' @ val) params))"



section \<open>Linguistic resources: \<open>is_word\<close>, \<open>is_not_stopword\<close>\<close>

text \<open>
  The dictionary word list \<open>wd.words()\<close> and the stopword list
  \<open>stopwords.words('english')\<close> are external data; they are parameters of the
  model. An argument that may be \<open>None\<close> is an \<open>option\<close>.
\<close>

definition is_word :: "string list \<Rightarrow> string option \<Rightarrow> bool" where
  "is_word wd_words word =
     (case word of
        None \<Rightarrow> False
      | Some w \<Rightarrow> (if w \<notin> set wd_words then False else True))"

definition is_not_stopword :: "string list \<Rightarrow> string \<Rightarrow> bool" where
  "is_not_stopword stopwords_english word =
     (let stop_words = set stopwords_english in word \<notin> stop_words)"

section \<open>Response Cleaner: \<open>collect_responses\<close>\<close>

definition answer_words :: "string \<Rightarrow> int \<Rightarrow> phrase \<Rightarrow> token list" where
  "answer_words position num_words response =
     (if position = ''after'' then py_slice (tks response) 1 None
      else py_slice (tks response) (- 1 - num_words) (Some (- 1)))"

definition answer :: "string \<Rightarrow> int \<Rightarrow> phrase \<Rightarrow> string" where
  "answer position num_words response =
     join '' '' (map tt (answer_words position num_words response))"

text \<open>The \<open>for\<close> loop, with the list \<open>cleaned_responses\<close> it appends to.\<close>

fun collect_loop ::
  "string list \<Rightarrow> string \<Rightarrow> int \<Rightarrow> phrase list \<Rightarrow> (string \<times> real) list \<Rightarrow>
     (string \<times> real) list" where
  "collect_loop wd_words position num_words [] cleaned_responses = cleaned_responses"
| "collect_loop wd_words position num_words (response # response_list) cleaned_responses =
     (if sc response > 1 / 1000 \<and>
         list_all (\<lambda>a. is_word wd_words (Some a))
           (map tt (answer_words position num_words response))
      then collect_loop wd_words position num_words response_list
             (cleaned_responses @ [(answer position num_words response, mc response)])
      else collect_loop wd_words position num_words response_list cleaned_responses)"

definition collect_responses ::
  "string list \<Rightarrow> phrase list \<Rightarrow> string \<Rightarrow> int \<Rightarrow> (string \<times> real) list" where
  "collect_responses wd_words response_list position num_words =
     collect_loop wd_words position num_words response_list []"

section \<open>Scorer: \<open>score_generator\<close>\<close>

text \<open>
  Python's \<open>a / b\<close>: raises \<open>ZeroDivisionError\<close> when the divisor is zero (for
  \<open>int\<close> and for \<open>float\<close> operands alike).
\<close>

definition py_truediv :: "real \<Rightarrow> real \<Rightarrow> py_error + real" where
  "py_truediv a b = (if b = 0 then Inl ZeroDivisionError else Inr (a / b))"

text \<open>
  The list comprehension \<open>[(w[0], (w[1] / total_score) * 100) for w in words]\<close>: the
  elements are evaluated from left to right and the first exception ends the
  comprehension. The division is a parameter, so that a statement can speak about
  whether the comprehension evaluates it at all.
\<close>

fun score_each ::
  "(real \<Rightarrow> real \<Rightarrow> py_error + real) \<Rightarrow> real \<Rightarrow> (string \<times> real) list \<Rightarrow>
     py_error + (string \<times> real) list" where
  "score_each dv total_score [] = Inr []"
| "score_each dv total_score (w # words) =
     (case dv (snd w) total_score of
        Inl e \<Rightarrow> Inl e
      | Inr q \<Rightarrow>
          (case score_each dv total_score words of
             Inl e \<Rightarrow> Inl e
           | Inr rest \<Rightarrow> Inr ((fst w, q * 100) # rest)))"

definition score_generator_with ::
  "(real \<Rightarrow> real \<Rightarrow> py_error + real) \<Rightarrow> (string \<times> real) list \<Rightarrow>
     py_error + (string \<times> real) list" where
  "score_generator_with dv words =
     (let total_score = sum_list (map snd words)
      in score_each dv total_score words)"

definition score_generator :: "(string \<times> real) list \<Rightarrow> py_error + (string \<times> real) list" where
  "score_generator words = score_generator_with py_truediv words"

section \<open>Stopword Annotator: \<open>add_stopword_result\<close>\<close>

definition add_stopword_result ::
  "string list \<Rightarrow> (string \<times> real) list \<Rightarrow> (string \<times> real \<times> bool) list" where
  "add_stopword_result stopwords_english scores =
     map (\<lambda>w. (fst w, snd w, is_not_stopword stopwords_english (fst w))) scores"

section \<open>Notions of the specification\<close>

text \<open>
  The last \<open>n\<close> elements of a list, in their order; all of the list when it has
  fewer than \<open>n\<close>. The specification's words for the tokens taken before the anchor.
\<close>

definition last_n :: "nat \<Rightarrow> 'a list \<Rightarrow> 'a list" where
  "last_n n xs = rev (take n (rev xs))"

text \<open>
  The decoding the specification's round trip speaks of, \<open>urllib.parse.unquote\<close>, on
  the bytes of the string: \<open>%\<close> followed by two hexadecimal digits (of either case)
  is the byte they denote; any other \<open>%\<close> stands for itself.
\<close>

definition hex_val :: "char \<Rightarrow> nat option" where
  "hex_val c =
     (let n = of_char c :: nat in
      if 48 \<le> n \<and> n \<le> 57 then Some (n - 48)
      else if 65 \<le> n \<and> n \<le> 70 then Some (n - 55)
      else if 97 \<le> n \<and> n \<le> 102 then Some (n - 87)
      else None)"

fun unquote :: "string \<Rightarrow> string" where
  "unquote [] = []"
| "unquote (c # s) =
     (if c = CHR ''%'' then
        (case s of
           a # b # rest \<Rightarrow>
             (case (hex_val a, hex_val b) of
                (Some h, Some l) \<Rightarrow> char_of (16 * h + l) # unquote rest
              | _ \<Rightarrow> c # unquote s)
         | _ \<Rightarrow> c # unquote s)
      else c # unquote s)"

section \<open>Properties of the Query Builder\<close>

lemma bracket_words_replicate: "bracket_words n = replicate (nat n) CHR ''?''"
  unfolding bracket_words_def str_mul_def by (induction "nat n") simp_all

lemma bracket_words_no_space: "CHR '' '' \<notin> set (bracket_words n)"
  by (simp add: bracket_words_replicate)

lemma hex_val_digit_all: "list_all (\<lambda>n. hex_val (hex_digit n) = Some n) [0..<16]"
  by code_simp

lemma hex_val_digit: "n < 16 \<Longrightarrow> hex_val (hex_digit n) = Some n"
  using hex_val_digit_all by (simp add: list_all_iff)

lemma safe_not_percent: "c \<in> set (always_safe @ ''/'') \<Longrightarrow> c \<noteq> CHR ''%''"
  by (auto simp add: always_safe_def)

lemma of_char_div_less: "(of_char c :: nat) div 16 < 16"
  by (rule less_mult_imp_div_less) simp

lemma unquote_quote_byte: "unquote (quote_byte ''/'' c @ s) = c # unquote s"
proof (cases "c \<in> set (always_safe @ ''/'')")
  case True
  then have "c \<noteq> CHR ''%''" by (rule safe_not_percent)
  with True show ?thesis by (simp add: quote_byte_def)
next
  case False
  have hi: "hex_val (hex_digit (of_char c div 16)) = Some (of_char c div 16)"
    by (rule hex_val_digit) (rule of_char_div_less)
  have lo: "hex_val (hex_digit (of_char c mod 16)) = Some (of_char c mod 16)"
    by (rule hex_val_digit) simp
  from False show ?thesis by (simp add: quote_byte_def hi lo)
qed

text \<open>Decoding a percent-encoded string yields the string that was encoded.\<close>

lemma unquote_quote: "unquote (quote s) = s"
proof (induction s)
  case Nil
  show ?case by (simp add: quote_def)
next
  case (Cons c s)
  have "unquote (quote (c # s)) = unquote (quote_byte ''/'' c @ quote s)"
    by (simp add: quote_def)
  also have "\<dots> = c # unquote (quote s)" by (rule unquote_quote_byte)
  finally show ?case by (simp add: Cons.IH)
qed

text \<open>
  What the Query Builder does for every anchor, position and count: the decoded query
  is the anchor and the run of question marks, in the order of the position, with one
  space between them.
\<close>

lemma unquote_encoded_query:
  "unquote (encoded_query word position n) =
     (if position = ''before'' then replicate (nat n) CHR ''?'' @ '' '' @ word
      else word @ '' '' @ replicate (nat n) CHR ''?'')"
  by (simp add: encoded_query_def unquote_quote bracket_words_replicate)

text \<open>
  C1. The claim asks for \<open>N\<close> placeholder tokens in a space-separated run. The source
  joins the one-element list \<open>[num_words * '?']\<close>, so the separator is never used and
  the placeholders form one unbroken run of question marks. For the anchor \<open>cat\<close> and
  two wildcards the query is \<open>?? cat\<close> (encoded \<open>%3F%3F%20cat\<close>), which decodes to
  \<open>?? cat\<close> and not to the \<open>? ? cat\<close> of the claim.
\<close>

theorem query_builder_two_wildcards:
  "bracket_words 2 = ''??'' \<and>
   encoded_query ''cat'' ''before'' 2 = ''%3F%3F%20cat'' \<and>
   encoded_query ''cat'' ''after'' 2 = ''cat%20%3F%3F'' \<and>
   query_params ''cat'' ''before'' 2 = ''corpus=eng-gb&query=%3F%3F%20cat'' \<and>
   unquote (encoded_query ''cat'' ''before'' 2) = ''?? cat'' \<and>
   unquote (encoded_query ''cat'' ''before'' 2) \<noteq> ''? ? cat''"
  by code_simp

section \<open>Properties of the Remote Lookup\<close>



section \<open>Properties of the Response Cleaner\<close>

lemma slice_index_neg: "i < 0 \<Longrightarrow> slice_index len i = len - nat (- i)"
  by (simp add: slice_index_def)

lemma slice_after: "py_slice xs 1 None = drop 1 xs"
  by (cases xs) (simp_all add: py_slice_def slice_index_def)

lemma last_n_drop: "last_n n xs = drop (length xs - n) xs"
  by (simp add: last_n_def rev_take)

lemma slice_before:
  assumes "0 \<le> n"
  shows "py_slice xs (- 1 - n) (Some (- 1)) = last_n (nat n) (butlast xs)"
proof -
  let ?len = "length xs"
  from assms have lo: "slice_index ?len (- 1 - n) = ?len - 1 - nat n"
    by (simp add: slice_index_neg)
  have hi: "slice_index ?len (- 1) = ?len - 1"
    by (simp add: slice_index_neg)
  have "py_slice xs (- 1 - n) (Some (- 1)) =
          take (?len - 1 - (?len - 1 - nat n)) (drop (?len - 1 - nat n) xs)"
    by (simp add: py_slice_def Let_def lo hi)
  also have "\<dots> = drop (?len - 1 - nat n) (take (?len - 1) xs)"
    by (simp add: drop_take)
  also have "\<dots> = last_n (nat n) (butlast xs)"
    by (simp add: last_n_drop butlast_conv_take)
  finally show ?thesis .
qed

lemma is_word_iff: "is_word D (Some a) = (a \<in> set D)"
  by (simp add: is_word_def)

lemma collect_loop_filter:
  "collect_loop D pos n rs acc =
     acc @ map (\<lambda>r. (answer pos n r, mc r))
            (filter (\<lambda>r. sc r > 1 / 1000 \<and>
                          (\<forall>t\<in>set (answer_words pos n r). is_word D (Some (tt t)))) rs)"
  by (induction rs arbitrary: acc) (simp_all add: list_all_iff)

lemma collect_responses_filter:
  "collect_responses D rs pos n =
     map (\<lambda>r. (answer pos n r, mc r))
       (filter (\<lambda>r. sc r > 1 / 1000 \<and>
                     (\<forall>t\<in>set (answer_words pos n r). is_word D (Some (tt t)))) rs)"
  by (simp add: collect_responses_def collect_loop_filter)

text \<open>
  C3. The cleaner's output is, in the order of the input, one candidate for each record
  whose score exceeds 0.001 and all of whose extracted tokens pass \<open>is_word\<close>, and
  nothing else: a record is kept if and only if both hold. In particular every emitted
  candidate comes from a record with a score above 0.001 whose extracted token texts
  are all in the dictionary word list.
\<close>

theorem collect_responses_kept_iff:
  "collect_responses D rs pos n =
     map (\<lambda>r. (answer pos n r, mc r))
       (filter (\<lambda>r. sc r > 1 / 1000 \<and>
                     (\<forall>t\<in>set (answer_words pos n r). is_word D (Some (tt t)))) rs) \<and>
   (\<forall>c\<in>set (collect_responses D rs pos n).
      \<exists>r\<in>set rs. c = (answer pos n r, mc r) \<and> \<not> sc r \<le> 1 / 1000 \<and>
        (\<forall>t\<in>set (answer_words pos n r). tt t \<in> set D))"
proof (intro conjI ballI)
  show "collect_responses D rs pos n =
     map (\<lambda>r. (answer pos n r, mc r))
       (filter (\<lambda>r. sc r > 1 / 1000 \<and>
                     (\<forall>t\<in>set (answer_words pos n r). is_word D (Some (tt t)))) rs)"
    by (rule collect_responses_filter)
next
  fix c
  assume "c \<in> set (collect_responses D rs pos n)"
  then obtain r where r: "r \<in> set rs" "sc r > 1 / 1000"
      "\<forall>t\<in>set (answer_words pos n r). is_word D (Some (tt t))"
      and c: "c = (answer pos n r, mc r)"
    unfolding collect_responses_filter by auto
  from r(3) have "\<forall>t\<in>set (answer_words pos n r). tt t \<in> set D"
    by (simp add: is_word_iff)
  with r(1,2) c show "\<exists>r\<in>set rs. c = (answer pos n r, mc r) \<and> \<not> sc r \<le> 1 / 1000 \<and>
        (\<forall>t\<in>set (answer_words pos n r). tt t \<in> set D)"
    by (intro bexI [of _ r]) simp_all
qed

theorem collect_responses_kept_iff_witness:
  "collect_responses [''brown'', ''fox'']
     [\<lparr>tks = [\<lparr>tt = ''quick''\<rparr>, \<lparr>tt = ''brown''\<rparr>, \<lparr>tt = ''fox''\<rparr>], sc = 1 / 2, mc = 10\<rparr>,
      \<lparr>tks = [\<lparr>tt = ''quick''\<rparr>, \<lparr>tt = ''brwn''\<rparr>, \<lparr>tt = ''fox''\<rparr>], sc = 1 / 2, mc = 4\<rparr>,
      \<lparr>tks = [\<lparr>tt = ''quick''\<rparr>, \<lparr>tt = ''fox''\<rparr>], sc = 1 / 1000, mc = 9\<rparr>]
     ''after'' 2 = [(''brown fox'', 10)]"
proof -
  let ?rs = "[\<lparr>tks = [\<lparr>tt = ''quick''\<rparr>, \<lparr>tt = ''brown''\<rparr>, \<lparr>tt = ''fox''\<rparr>], sc = 1 / 2, mc = 10\<rparr>,
      \<lparr>tks = [\<lparr>tt = ''quick''\<rparr>, \<lparr>tt = ''brwn''\<rparr>, \<lparr>tt = ''fox''\<rparr>], sc = 1 / 2, mc = 4\<rparr>,
      \<lparr>tks = [\<lparr>tt = ''quick''\<rparr>, \<lparr>tt = ''fox''\<rparr>], sc = 1 / 1000, mc = 9\<rparr>]"
  note eq = collect_responses_kept_iff [of "[''brown'', ''fox'']" ?rs "''after''" 2, THEN conjunct1]
  show ?thesis
    unfolding eq
    by (simp add: answer_def answer_words_def py_slice_def slice_index_def is_word_def)
qed

text \<open>
  C4. For position \<open>after\<close> the candidate tokens are all tokens from index 1 onward.
  For position \<open>before\<close> and a wildcard count \<open>N \<ge> 0\<close> they are the last \<open>N\<close> tokens
  before the final token (all of them when there are fewer than \<open>N\<close>). The candidate
  text of every kept record is the texts of its candidate tokens joined by single
  spaces.
\<close>

theorem answer_words_selection:
  "answer_words ''after'' n r = drop 1 (tks r) \<and>
   (0 \<le> n \<longrightarrow> answer_words ''before'' n r = last_n (nat n) (butlast (tks r))) \<and>
   map fst (collect_responses D rs pos n) =
     map (\<lambda>r. join '' '' (map tt (answer_words pos n r)))
       (filter (\<lambda>r. sc r > 1 / 1000 \<and>
                     (\<forall>t\<in>set (answer_words pos n r). is_word D (Some (tt t)))) rs)"
  by (simp add: answer_words_def slice_after slice_before collect_responses_filter
        answer_def comp_def)

theorem answer_words_selection_witness:
  "answer_words ''after'' 2 \<lparr>tks = [\<lparr>tt = ''the''\<rparr>, \<lparr>tt = ''quick''\<rparr>, \<lparr>tt = ''brown''\<rparr>, \<lparr>tt = ''fox''\<rparr>], sc = 1, mc = 3\<rparr> =
     [\<lparr>tt = ''quick''\<rparr>, \<lparr>tt = ''brown''\<rparr>, \<lparr>tt = ''fox''\<rparr>] \<and>
   answer_words ''before'' 2 \<lparr>tks = [\<lparr>tt = ''the''\<rparr>, \<lparr>tt = ''quick''\<rparr>, \<lparr>tt = ''brown''\<rparr>, \<lparr>tt = ''fox''\<rparr>], sc = 1, mc = 3\<rparr> =
     [\<lparr>tt = ''quick''\<rparr>, \<lparr>tt = ''brown''\<rparr>] \<and>
   map fst (collect_responses [''quick'', ''brown'']
      [\<lparr>tks = [\<lparr>tt = ''the''\<rparr>, \<lparr>tt = ''quick''\<rparr>, \<lparr>tt = ''brown''\<rparr>, \<lparr>tt = ''fox''\<rparr>], sc = 1, mc = 3\<rparr>]
      ''before'' 2) = [''quick brown'']"
  using answer_words_selection [of 2
      "\<lparr>tks = [\<lparr>tt = ''the''\<rparr>, \<lparr>tt = ''quick''\<rparr>, \<lparr>tt = ''brown''\<rparr>, \<lparr>tt = ''fox''\<rparr>], sc = 1, mc = 3\<rparr>"
      "[''quick'', ''brown'']"
      "[\<lparr>tks = [\<lparr>tt = ''the''\<rparr>, \<lparr>tt = ''quick''\<rparr>, \<lparr>tt = ''brown''\<rparr>, \<lparr>tt = ''fox''\<rparr>], sc = 1, mc = 3\<rparr>]"
      "''before''"]
  by (simp add: last_n_def is_word_def)

text \<open>
  C10. For position \<open>before\<close> and wildcard count 0 the token slice of every record is
  empty, the dictionary check holds vacuously, and the cleaner emits the candidate
  \<open>("", match-count)\<close> for exactly the records whose score exceeds 0.001, whatever
  the dictionary.
\<close>

theorem collect_responses_before_zero:
  "answer_words ''before'' 0 r = [] \<and>
   collect_responses D rs ''before'' 0 =
     map (\<lambda>r. ('''', mc r)) (filter (\<lambda>r. sc r > 1 / 1000) rs)"
  by (simp add: collect_responses_filter answer_def answer_words_def py_slice_def
        slice_index_def)

section \<open>Properties of the Scorer\<close>


text \<open>
  C9. The Scorer applied to the empty list returns the empty list: the total of the
  empty list is 0, but the division is only evaluated once per element, so none is
  evaluated and nothing faults. The last conjunct says so for every division
  operation, also one that faults on every argument.
\<close>

theorem score_generator_empty:
  "score_generator [] = Inr [] \<and>
   sum_list (map snd ([] :: (string \<times> real) list)) = 0 \<and>
   (\<forall>dv. score_generator_with dv [] = Inr [])"
  by (simp add: score_generator_def score_generator_with_def)




section \<open>Properties of the Stopword Annotator\<close>

text \<open>
  C7. The annotator keeps every \<open>(text, percentage)\<close> pair, in order, and the flag it
  appends is false if and only if the text is a member of the stopword set.
\<close>

theorem add_stopword_result_flags:
  "map (\<lambda>(t, p, f). (t, p)) (add_stopword_result sw scores) = scores \<and>
   (\<forall>(t, p, f)\<in>set (add_stopword_result sw scores). (f = False) = (t \<in> set sw))"
  by (induction scores) (simp_all add: add_stopword_result_def is_not_stopword_def)

theorem add_stopword_result_flags_witness:
  "add_stopword_result [''the'', ''of''] [(''the'', 60), (''fox'', 40)] =
     [(''the'', 60, False), (''fox'', 40, True)]"
  using add_stopword_result_flags [of "[''the'', ''of'']" "[(''the'', 60), (''fox'', 40)]"]
  by (simp add: add_stopword_result_def is_not_stopword_def)

end
